theory Spec2Isabelle
  imports Main "HOL-Library.Char_ord" "HOL-Library.List_Lexorder" "HOL-Library.Sublist"
begin

section \<open>Python values, exceptions and strings\<close>

text \<open>
  The module \<^verbatim>\<open>creodias_finder/query.py\<close> dispatches on the run-time type and on the
  truthiness of its arguments, so the arguments are values of a small universe of Python
  objects. A Python \<^verbatim>\<open>str\<close> is a sequence of code points; a \<^typ>\<open>char\<close> stands for a code
  point below 256, and \<^typ>\<open>string\<close> for a \<^verbatim>\<open>str\<close> over those code points.
\<close>

record datetime =
  ordinal :: int
  hour :: int
  minute :: int
  second :: int
  microsecond :: int
  tzinfo :: "int option"

text \<open>
  \<open>ordinal\<close> is the proleptic Gregorian day number of the date part (what
  \<^verbatim>\<open>toordinal()\<close> returns); \<open>tzinfo\<close> is the UTC offset in minutes of an aware
  timestamp and \<open>None\<close> for a naive one. The invariant of the class:
\<close>

definition MAXORDINAL :: int where
  "MAXORDINAL = 3652059"

definition valid_datetime :: "datetime \<Rightarrow> bool" where
  "valid_datetime d \<longleftrightarrow>
     1 \<le> ordinal d \<and> ordinal d \<le> MAXORDINAL \<and>
     0 \<le> hour d \<and> hour d < 24 \<and>
     0 \<le> minute d \<and> minute d < 60 \<and>
     0 \<le> second d \<and> second d < 60 \<and>
     0 \<le> microsecond d \<and> microsecond d < 1000000"

datatype pyval =
    PNone
  | PBool bool
  | PInt int
  | PStr string
  | PDatetime datetime
  | PList "pyval list"
  | PTuple "pyval list"

text \<open>The truth value Python gives an object in \<^verbatim>\<open>if x:\<close>.\<close>

fun truthy :: "pyval \<Rightarrow> bool" where
  "truthy PNone = False"
| "truthy (PBool b) = b"
| "truthy (PInt i) = (i \<noteq> 0)"
| "truthy (PStr s) = (s \<noteq> [])"
| "truthy (PDatetime d) = True"
| "truthy (PList xs) = (xs \<noteq> [])"
| "truthy (PTuple xs) = (xs \<noteq> [])"

text \<open>
  Exceptions are values. \<open>ValueError\<close> carries the message the source gives it;
  \<open>RequestError\<close> is the module's own class with its two attributes; \<open>TypeError\<close> and
  \<open>OverflowError\<close> are raised by the interpreter; \<open>HTTPError\<close> is what
  \<^verbatim>\<open>raise_for_status()\<close> raises, with the status code; \<open>ParserError\<close> is what the
  date parser raises.
\<close>

datatype exn =
    ValueError string
  | TypeError
  | OverflowError
  | HTTPError nat
  | RequestError pyval pyval
  | ParserError

text \<open>
  \<^verbatim>\<open>class RequestError(Exception): def __init__(self, message, errors)\<close>: the
  constructor takes exactly two positional arguments besides \<^verbatim>\<open>self\<close>; a call with any
  other number of arguments raises \<open>TypeError\<close> instead of building the exception.
\<close>

fun RequestError_init :: "pyval list \<Rightarrow> exn" where
  "RequestError_init [message, errors] = RequestError message errors"
| "RequestError_init args = TypeError"

definition backslash :: char where
  "backslash = CHR 0x5C"

definition newline :: char where
  "newline = CHR 0x0A"

text \<open>\<^verbatim>\<open>str(n)\<close> and \<^verbatim>\<open>f'{n}'\<close> for a non-negative integer: its decimal digits.\<close>

fun str_nat :: "nat \<Rightarrow> string" where
  "str_nat n =
     (if n < 10 then [''0123456789'' ! n]
      else str_nat (n div 10) @ [''0123456789'' ! (n mod 10)])"

declare str_nat.simps [simp del]

text \<open>
  \<^verbatim>\<open>str.isspace\<close> on one code point below 256; \<^verbatim>\<open>str.strip()\<close> and the class
  \<^verbatim>\<open>\s\<close> of a \<^verbatim>\<open>str\<close> pattern use the same set.
\<close>

definition py_isspace :: "char \<Rightarrow> bool" where
  "py_isspace c =
     (let n = (of_char c :: nat)
      in (9 \<le> n \<and> n \<le> 13) \<or> (28 \<le> n \<and> n \<le> 32) \<or> n = 133 \<or> n = 160)"

definition strip :: "string \<Rightarrow> string" where
  "strip s = rev (dropWhile py_isspace (rev (dropWhile py_isspace s)))"

definition startswith :: "string \<Rightarrow> string \<Rightarrow> bool" where
  "startswith s p = prefix p s"

definition endswith :: "string \<Rightarrow> string \<Rightarrow> bool" where
  "endswith s p = suffix p s"

text \<open>
  \<^verbatim>\<open>s.replace(old, new)\<close> and \<^verbatim>\<open>s.replace(old, new, count)\<close> for a non-empty
  \<open>old\<close>: the occurrences are found from the left and do not overlap, and at most
  \<open>count\<close> of them are replaced (\<open>None\<close>: all of them).
\<close>

function replace_count :: "string \<Rightarrow> string \<Rightarrow> nat option \<Rightarrow> string \<Rightarrow> string" where
  "replace_count old new cnt [] = []"
| "replace_count old new cnt (c # cs) =
     (if cnt \<noteq> Some 0 \<and> old \<noteq> [] \<and> prefix old (c # cs)
      then new @ replace_count old new (map_option (\<lambda>k. k - 1) cnt) (drop (length old) (c # cs))
      else c # replace_count old new cnt cs)"
  by pat_completeness auto
termination
  by (relation "measure (\<lambda>(old, new, cnt, s). length s)") auto

text \<open>
  \<^verbatim>\<open>re.sub(pattern, repl, string, count)\<close> for a pattern that is one character class
  and a replacement template \<open>repl\<close> without group references: every match is one
  character, and the first \<open>count\<close> matches are replaced, all of them when
  \<open>count = 0\<close>.
\<close>

fun sub_limited :: "(char \<Rightarrow> bool) \<Rightarrow> string \<Rightarrow> nat option \<Rightarrow> string \<Rightarrow> string" where
  "sub_limited P repl lim [] = []"
| "sub_limited P repl lim (c # cs) =
     (if lim \<noteq> Some 0 \<and> P c
      then repl @ sub_limited P repl (map_option (\<lambda>k. k - 1) lim) cs
      else c # sub_limited P repl lim cs)"

definition re_sub :: "(char \<Rightarrow> bool) \<Rightarrow> string \<Rightarrow> string \<Rightarrow> nat \<Rightarrow> string" where
  "re_sub P repl s count = sub_limited P repl (if count = 0 then None else Some count) s"

text \<open>The flag \<^verbatim>\<open>re.M\<close> (\<^verbatim>\<open>re.MULTILINE\<close>) is the integer 8.\<close>

definition re_M :: nat where
  "re_M = 8"

section \<open>Regular expressions\<close>

text \<open>
  The patterns of the module use literals, character classes, sequence, alternation,
  \<^verbatim>\<open>+\<close> and \<^verbatim>\<open>?\<close>. A pattern is matched by taking its derivative along the input;
  for a pattern that ends in \<^verbatim>\<open>$\<close> the backtracking matcher of \<^verbatim>\<open>re\<close> finds a
  match exactly when the input is in the language of the pattern.
\<close>

datatype rx =
    Fail
  | Eps
  | Lit char
  | Range char char
  | OneOf "char list"
  | Seq rx rx
  | Alt rx rx
  | Star rx

definition Plus :: "rx \<Rightarrow> rx" where
  "Plus r = Seq r (Star r)"

definition Opt :: "rx \<Rightarrow> rx" where
  "Opt r = Alt r Eps"

fun seqs :: "rx list \<Rightarrow> rx" where
  "seqs [] = Eps"
| "seqs (r # rs) = Seq r (seqs rs)"

definition lits :: "string \<Rightarrow> rx" where
  "lits s = seqs (map Lit s)"

fun repeat :: "nat \<Rightarrow> rx \<Rightarrow> rx" where
  "repeat 0 r = Eps"
| "repeat (Suc n) r = Seq r (repeat n r)"

fun nullable :: "rx \<Rightarrow> bool" where
  "nullable Fail = False"
| "nullable Eps = True"
| "nullable (Lit c) = False"
| "nullable (Range a b) = False"
| "nullable (OneOf cs) = False"
| "nullable (Seq r s) = (nullable r \<and> nullable s)"
| "nullable (Alt r s) = (nullable r \<or> nullable s)"
| "nullable (Star r) = True"

fun deriv :: "char \<Rightarrow> rx \<Rightarrow> rx" where
  "deriv c Fail = Fail"
| "deriv c Eps = Fail"
| "deriv c (Lit d) = (if c = d then Eps else Fail)"
| "deriv c (Range a b) = (if a \<le> c \<and> c \<le> b then Eps else Fail)"
| "deriv c (OneOf cs) = (if c \<in> set cs then Eps else Fail)"
| "deriv c (Seq r s) =
     (if nullable r then Alt (Seq (deriv c r) s) (deriv c s) else Seq (deriv c r) s)"
| "deriv c (Alt r s) = Alt (deriv c r) (deriv c s)"
| "deriv c (Star r) = Seq (deriv c r) (Star r)"

fun accepts :: "rx \<Rightarrow> string \<Rightarrow> bool" where
  "accepts r [] = nullable r"
| "accepts r (c # cs) = accepts (deriv c r) cs"

text \<open>
  \<^verbatim>\<open>pattern.match(s)\<close> for a pattern \<^verbatim>\<open>^r$\<close>: without \<^verbatim>\<open>re.MULTILINE\<close> the
  \<^verbatim>\<open>$\<close> matches at the end of the string and just before a newline that ends the
  string.
\<close>

definition re_match :: "rx \<Rightarrow> string \<Rightarrow> bool" where
  "re_match r s \<longleftrightarrow>
     accepts r s \<or> (s \<noteq> [] \<and> last s = newline \<and> accepts r (butlast s))"

definition digit :: rx where
  "digit = Range (CHR ''0'') (CHR ''9'')"

text \<open>
  A replacement field \<^verbatim>\<open>{n}\<close> of an f-string is evaluated when the string is built:
  it contributes the text of \<^verbatim>\<open>str(n)\<close>, which the pattern compiler then reads as
  literal characters.
\<close>

definition fstring_field :: "nat \<Rightarrow> rx" where
  "fstring_field n = lits (str_nat n)"

text \<open>
  The pattern of \<^verbatim>\<open>_parse_date\<close>. The source writes it as two adjacent f-strings,
  \<^verbatim>\<open>f"^[0-9]{4}-[0-9]{2}-[0-9]{2}(T[0-9]{2}:[0-9]{2}:[0-9]{2}"\<close> and
  \<^verbatim>\<open>f"(\\.[0-9]+)?(|Z|[\\+\\-][0-9]{2}:[0-9]{2}))?$"\<close>, so every \<^verbatim>\<open>{4}\<close> and
  \<^verbatim>\<open>{2}\<close> in it is a replacement field.
\<close>

definition date_pattern :: rx where
  "date_pattern =
     seqs [digit, fstring_field 4, Lit (CHR ''-''), digit, fstring_field 2, Lit (CHR ''-''),
           digit, fstring_field 2,
           Opt (seqs [Lit (CHR ''T''), digit, fstring_field 2, Lit (CHR '':''),
                      digit, fstring_field 2, Lit (CHR '':''), digit, fstring_field 2,
                      Opt (Seq (Lit (CHR ''.'')) (Plus digit)),
                      Alt Eps (Alt (Lit (CHR ''Z''))
                        (seqs [OneOf ''+-'', digit, fstring_field 2, Lit (CHR '':''),
                               digit, fstring_field 2]))])]"

text \<open>
  The pattern the specification describes: \<^verbatim>\<open>YYYY-MM-DD\<close>, optionally followed by
  \<^verbatim>\<open>THH:MM:SS\<close>, an optional fraction and an optional \<^verbatim>\<open>Z\<close> or
  \<^verbatim>\<open>+HH:MM\<close>/\<^verbatim>\<open>-HH:MM\<close> offset (the same text read with \<^verbatim>\<open>{4}\<close> and \<^verbatim>\<open>{2}\<close>
  as repetition counts).
\<close>

definition iso_pattern :: rx where
  "iso_pattern =
     seqs [repeat 4 digit, Lit (CHR ''-''), repeat 2 digit, Lit (CHR ''-''), repeat 2 digit,
           Opt (seqs [Lit (CHR ''T''), repeat 2 digit, Lit (CHR '':''),
                      repeat 2 digit, Lit (CHR '':''), repeat 2 digit,
                      Opt (Seq (Lit (CHR ''.'')) (Plus digit)),
                      Alt Eps (Alt (Lit (CHR ''Z''))
                        (seqs [OneOf ''+-'', repeat 2 digit, Lit (CHR '':''),
                               repeat 2 digit]))])]"

section \<open>External capabilities\<close>

text \<open>
  The module calls \<^verbatim>\<open>urljoin\<close>, \<^verbatim>\<open>dateutil.parser.parse\<close>,
  \<^verbatim>\<open>datetime.isoformat\<close>, \<^verbatim>\<open>str.format\<close> on the elements of a range and
  \<^verbatim>\<open>requests.get\<close>. They are parameters of the model. \<open>get E i u\<close> is the response
  to the request for URL \<open>u\<close> when \<open>i\<close> requests have been answered before it.
  A response either has a failure status or is a body of the wire format
  \<^verbatim>\<open>{"properties": {"itemsPerPage": n}, "features": [{"id": ..., ...}, ...]}\<close>.
\<close>

record 'a feature =
  fid :: string
  body :: 'a

datatype 'a response =
    Failed nat
  | Page int "'a feature list"

record 'a env =
  urljoin :: "string \<Rightarrow> pyval \<Rightarrow> exn + string"
  parse :: "string \<Rightarrow> exn + datetime"
  isoformat :: "datetime \<Rightarrow> string"
  format :: "pyval \<Rightarrow> string"
  get :: "nat \<Rightarrow> string \<Rightarrow> 'a response"

section \<open>Timestamps and durations\<close>

text \<open>
  A \<^verbatim>\<open>timedelta\<close> is kept normalised: \<open>0 \<le> seconds < 86400\<close> and
  \<open>0 \<le> microseconds < 1000000\<close>. \<open>timedelta_new\<close> is the constructor
  \<^verbatim>\<open>timedelta(days, hours=, minutes=, seconds=, microseconds=)\<close>.
\<close>

record timedelta =
  days :: int
  seconds :: int
  microseconds :: int

definition timedelta_new :: "int \<Rightarrow> int \<Rightarrow> int \<Rightarrow> int \<Rightarrow> int \<Rightarrow> timedelta" where
  "timedelta_new d h m s us =
     (let total_us = (d * 86400 + h * 3600 + m * 60 + s) * 1000000 + us;
          total_s = total_us div 1000000
      in \<lparr>days = total_s div 86400, seconds = total_s mod 86400,
          microseconds = total_us mod 1000000\<rparr>)"

text \<open>
  \<^verbatim>\<open>datetime.__add__\<close>: the timestamp is turned into a duration since day 0, the
  other duration is added, and the sum is split again; a day outside
  \<open>1..MAXORDINAL\<close> raises \<open>OverflowError\<close>. The time zone is kept.
\<close>

definition datetime_add :: "datetime \<Rightarrow> timedelta \<Rightarrow> exn + datetime" where
  "datetime_add d td =
     (let delta = timedelta_new (ordinal d + days td) (hour d) (minute d)
                    (second d + seconds td) (microsecond d + microseconds td);
          rem = seconds delta mod 3600
      in if 0 < days delta \<and> days delta \<le> MAXORDINAL
         then Inr \<lparr>ordinal = days delta, hour = seconds delta div 3600,
                   minute = rem div 60, second = rem mod 60,
                   microsecond = microseconds delta, tzinfo = tzinfo d\<rparr>
         else Inl OverflowError)"

section \<open>The parameter encoder\<close>

text \<open>
  \<^verbatim>\<open>_parse_date\<close>: a \<^verbatim>\<open>datetime\<close> is returned as it is; anything else is given to
  \<^verbatim>\<open>pattern.match\<close>, which raises \<open>TypeError\<close> on an object that is not a string.
  The message of the \<open>ValueError\<close> is a plain string literal in the source, braces
  included.
\<close>

fun parse_date :: "'a env \<Rightarrow> pyval \<Rightarrow> exn + datetime" where
  "parse_date E (PDatetime d) = Inr d"
| "parse_date E (PStr s) =
     (if re_match date_pattern s then parse E s
      else Inl (ValueError
        ''Date {date} is not in a valid format. Use Datetime object or iso string''))"
| "parse_date E v = Inl TypeError"

text \<open>\<^verbatim>\<open>_add_time\<close>.\<close>

definition add_time :: "datetime \<Rightarrow> exn + datetime" where
  "add_time date =
     (if hour date = 0 \<and> minute date = 0 \<and> second date = 0
      then datetime_add date (timedelta_new 0 23 59 59 0)
      else Inr date)"

text \<open>
  \<^verbatim>\<open>_convert_wkt\<close>: on an object that is not a string the call of \<^verbatim>\<open>replace\<close>
  raises (no such attribute, or wrong argument types), and the handler turns every
  exception into the \<open>ValueError\<close>.
\<close>

fun convert_wkt :: "pyval \<Rightarrow> exn + string" where
  "convert_wkt (PStr geometry) =
     Inr (replace_count '' '' ''+'' None
           (replace_count '' '' [] (Some 1)
             (replace_count '', '' '','' None geometry)))"
| "convert_wkt v = Inl (ValueError ''Geometry must be in well-known text format'')"

text \<open>
  \<^verbatim>\<open>_parse_argvalue\<close>. The call is \<^verbatim>\<open>re.sub(r"\s", r"\ ", value, re.M)\<close>: the
  fourth positional parameter of \<^verbatim>\<open>re.sub\<close> is \<open>count\<close>, and the replacement
  template \<^verbatim>\<open>\ \<close> stands for a backslash followed by a space.
\<close>

definition bracketed :: "string \<Rightarrow> bool" where
  "bracketed v \<longleftrightarrow>
     list_ex (\<lambda>s. startswith v [s ! 0] \<and> endswith v [s ! 1]) [''[]'', ''{}'', ''//'', ''()'']"

fun parse_argvalue :: "'a env \<Rightarrow> pyval \<Rightarrow> exn + string" where
  "parse_argvalue E (PStr value) =
     (let value = strip value
      in if \<not> bracketed value
         then Inr (re_sub py_isspace [backslash, CHR '' ''] value re_M)
         else Inr value)"
| "parse_argvalue E (PList xs) =
     (case xs of
        [a, b] \<Rightarrow> Inr (''['' @ format E a @ '','' @ format E b @ '']'')
      | _ \<Rightarrow> Inl (ValueError
          (''Invalid number of elements in list. Expected 2, received '' @ str_nat (length xs))))"
| "parse_argvalue E (PTuple xs) =
     (case xs of
        [a, b] \<Rightarrow> Inr (''['' @ format E a @ '','' @ format E b @ '']'')
      | _ \<Rightarrow> Inl (ValueError
          (''Invalid number of elements in list. Expected 2, received '' @ str_nat (length xs))))"
| "parse_argvalue E v =
     Inl (ValueError ''Additional arguments can be either string or tuple/list of 2 values'')"

section \<open>The pagination aggregator\<close>

definition API_URL :: string where
  "API_URL = ''http://finder.creodias.eu/resto/api/collections/''"

definition MAX_RECORDS :: nat where
  "MAX_RECORDS = 1000"

text \<open>
  The URL is built by appending to one variable; each step below is one \<^verbatim>\<open>if\<close>
  block of \<^verbatim>\<open>query\<close> and returns the new value of \<open>url\<close>, or the exception that
  leaves the function. The \<^verbatim>\<open>print(url)\<close> after the last step writes to the
  console and changes nothing the function reads; it has no counterpart here.
\<close>

text \<open>
  \<open>raising m f\<close> runs \<open>f\<close> on the value of \<open>m\<close>, unless \<open>m\<close> raised: then the
  exception leaves the function.
\<close>

fun raising :: "exn + 'b \<Rightarrow> ('b \<Rightarrow> exn + 'c) \<Rightarrow> exn + 'c" where
  "raising (Inl e) f = Inl e"
| "raising (Inr x) f = f x"

definition set_collection :: "'a env \<Rightarrow> pyval \<Rightarrow> exn + string" where
  "set_collection E collection =
     (case (if truthy collection then urljoin E API_URL collection else Inr API_URL) of
        Inl e \<Rightarrow> Inl e
      | Inr url \<Rightarrow> Inr (url @ ''/search.json?''))"

definition add_start_date :: "'a env \<Rightarrow> pyval \<Rightarrow> string \<Rightarrow> exn + string" where
  "add_start_date E start_date url =
     (if truthy start_date
      then (case parse_date E start_date of
              Inl e \<Rightarrow> Inl e
            | Inr d \<Rightarrow> Inr (url @ ''&startDate='' @ isoformat E d))
      else Inr url)"

definition add_end_date :: "'a env \<Rightarrow> pyval \<Rightarrow> string \<Rightarrow> exn + string" where
  "add_end_date E end_date url =
     (if truthy end_date
      then (case parse_date E end_date of
              Inl e \<Rightarrow> Inl e
            | Inr d \<Rightarrow>
               (case add_time d of
                  Inl e \<Rightarrow> Inl e
                | Inr d' \<Rightarrow> Inr (url @ ''&completionDate='' @ isoformat E d')))
      else Inr url)"

definition add_geometry :: "pyval \<Rightarrow> string \<Rightarrow> exn + string" where
  "add_geometry geometry url =
     (if truthy geometry
      then (case convert_wkt geometry of
              Inl e \<Rightarrow> Inl e
            | Inr g \<Rightarrow> Inr (url @ ''&geometry='' @ g))
      else Inr url)"

text \<open>
  The keyword arguments are a dictionary with string keys, given here as the list of
  its items (the keys of a dictionary are distinct). \<^verbatim>\<open>sorted(kwargs.items())\<close>
  orders the pairs by key, strings being compared code point by code point.
\<close>

fun add_filters :: "'a env \<Rightarrow> (string \<times> pyval) list \<Rightarrow> string \<Rightarrow> exn + string" where
  "add_filters E [] url = Inr url"
| "add_filters E ((attr, value) # rest) url =
     (case parse_argvalue E value of
        Inl e \<Rightarrow> Inl e
      | Inr v \<Rightarrow> add_filters E rest (url @ ''&'' @ attr @ ''='' @ v))"

definition build_url ::
  "'a env \<Rightarrow> pyval \<Rightarrow> pyval \<Rightarrow> pyval \<Rightarrow> pyval \<Rightarrow> (string \<times> pyval) list \<Rightarrow> exn + string" where
  "build_url E collection start_date end_date geometry kwargs =
     raising (set_collection E collection) (\<lambda>u0.
     raising (add_start_date E start_date u0) (\<lambda>u1.
     raising (add_end_date E end_date u1) (\<lambda>u2.
     raising (add_geometry geometry u2) (\<lambda>u3.
     raising (add_filters E (sort_key fst kwargs) u3) (\<lambda>u4.
     Inr (u4 @ ''&maxRecords='' @ str_nat MAX_RECORDS))))))"

text \<open>
  The page loop \<^verbatim>\<open>for page in range(1000)\<close>. \<open>page_loop E url n page acc log\<close> has
  \<open>n\<close> iterations left, the next one for index \<open>page\<close>; \<open>acc\<close> is
  \<open>query_response\<close> and \<open>log\<close> the URLs requested so far. It returns the outcome
  together with the requests that were made.
\<close>

definition page_url :: "string \<Rightarrow> nat \<Rightarrow> string" where
  "page_url url page = url @ ''&page='' @ str_nat (page + 1)"

definition merge_features ::
  "(string \<rightharpoonup> 'a feature) \<Rightarrow> 'a feature list \<Rightarrow> (string \<rightharpoonup> 'a feature)" where
  "merge_features acc fs = foldl (\<lambda>m f. m(fid f \<mapsto> f)) acc fs"

fun page_loop ::
  "'a env \<Rightarrow> string \<Rightarrow> nat \<Rightarrow> nat \<Rightarrow> (string \<rightharpoonup> 'a feature) \<Rightarrow> string list
     \<Rightarrow> (exn + (string \<rightharpoonup> 'a feature)) \<times> string list" where
  "page_loop E url 0 page acc log = (Inr acc, log)"
| "page_loop E url (Suc n) page acc log =
     (let url_page = page_url url page;
          log' = log @ [url_page]
      in case get E (length log) url_page of
           Failed status \<Rightarrow> (Inl (HTTPError status), log')
         | Page items feats \<Rightarrow>
             if items = 0 then (Inr acc, log')
             else if page = 999
               then (Inl (RequestError_init [PStr ''The query is too large.'']), log')
             else page_loop E url n (Suc page) (merge_features acc feats) log')"

definition query ::
  "'a env \<Rightarrow> pyval \<Rightarrow> pyval \<Rightarrow> pyval \<Rightarrow> pyval \<Rightarrow> (string \<times> pyval) list
     \<Rightarrow> (exn + (string \<rightharpoonup> 'a feature)) \<times> string list" where
  "query E collection start_date end_date geometry kwargs =
     (case build_url E collection start_date end_date geometry kwargs of
        Inl e \<Rightarrow> (Inl e, [])
      | Inr url \<Rightarrow> page_loop E url 1000 0 Map.empty [])"

section \<open>Notions used in the properties\<close>

text \<open>
  The sequence of page responses of a query: \<open>responses E url i\<close> answers the request
  for page index \<open>i\<close>, which is the \<open>i\<close>-th request the loop makes.
\<close>

definition responses :: "'a env \<Rightarrow> string \<Rightarrow> nat \<Rightarrow> 'a response" where
  "responses E url i = get E i (page_url url i)"

fun reports_items :: "'a response \<Rightarrow> bool" where
  "reports_items (Page n fs) = (n \<noteq> 0)"
| "reports_items (Failed st) = False"

fun reports_empty :: "'a response \<Rightarrow> bool" where
  "reports_empty (Page n fs) = (n = 0)"
| "reports_empty (Failed st) = False"

fun features_of :: "'a response \<Rightarrow> 'a feature list" where
  "features_of (Page n fs) = fs"
| "features_of (Failed st) = []"

text \<open>
  Page \<open>k\<close> is the first one that reports an items-per-page count of zero, and every
  page before it is a body with a nonzero count.
\<close>

definition first_empty :: "'a env \<Rightarrow> string \<Rightarrow> nat \<Rightarrow> bool" where
  "first_empty E url k \<longleftrightarrow>
     list_all (\<lambda>i. reports_items (responses E url i)) [0..<k] \<and>
     reports_empty (responses E url k)"

text \<open>The features of the pages \<open>p, \<dots>, k - 1\<close>, in the order they arrive.\<close>

definition merged :: "'a env \<Rightarrow> string \<Rightarrow> nat \<Rightarrow> nat \<Rightarrow> 'a feature list" where
  "merged E url p k = concat (map (\<lambda>i. features_of (responses E url i)) [p..<k])"


text \<open>One \<^verbatim>\<open>&key=value\<close> fragment of the query string.\<close>

fun fragment :: "string \<times> string \<Rightarrow> string" where
  "fragment (k, v) = ''&'' @ k @ ''='' @ v"

text \<open>
  The escaping the specification words: every white-space character prefixed by a
  backslash.
\<close>

definition backslash_prefixed :: "string \<Rightarrow> string" where
  "backslash_prefixed s = concat (map (\<lambda>c. if py_isspace c then [backslash, c] else [c]) s)"

text \<open>
  The fragment order the data model of the specification states: dates, then the extra
  filters, then the geometry, then the page size.
\<close>

definition spec_order_url ::
  "'a env \<Rightarrow> pyval \<Rightarrow> pyval \<Rightarrow> pyval \<Rightarrow> pyval \<Rightarrow> (string \<times> pyval) list \<Rightarrow> exn + string" where
  "spec_order_url E collection start_date end_date geometry kwargs =
     raising (set_collection E collection) (\<lambda>u0.
     raising (add_start_date E start_date u0) (\<lambda>u1.
     raising (add_end_date E end_date u1) (\<lambda>u2.
     raising (add_filters E (sort_key fst kwargs) u2) (\<lambda>u3.
     raising (add_geometry geometry u3) (\<lambda>u4.
     Inr (u4 @ ''&maxRecords='' @ str_nat MAX_RECORDS))))))"

section \<open>Sample inputs\<close>

text \<open>
  An environment for the concrete instances below. Its \<open>urljoin\<close> appends a plain
  collection name to the base, which ends in a slash; its \<open>isoformat\<close> serves
  timestamps of 1 January 2020 (day 737425) and prints the time of day; the page
  responses \<open>rs\<close> are given by request index.
\<close>

definition two_digits :: "int \<Rightarrow> string" where
  "two_digits n = (if n < 10 then ''0'' else []) @ str_nat (nat n)"

definition sample_isoformat :: "datetime \<Rightarrow> string" where
  "sample_isoformat d =
     ''2020-01-01T'' @ two_digits (hour d) @ '':'' @ two_digits (minute d) @ '':'' @
     two_digits (second d)"

definition sample_env :: "(nat \<Rightarrow> 'a response) \<Rightarrow> 'a env" where
  "sample_env rs =
     \<lparr>urljoin = (\<lambda>base v. case v of PStr s \<Rightarrow> Inr (base @ s) | _ \<Rightarrow> Inl TypeError),
      parse = (\<lambda>s. Inl ParserError),
      isoformat = sample_isoformat,
      format = (\<lambda>v. case v of PStr s \<Rightarrow> s | _ \<Rightarrow> ''?''),
      get = (\<lambda>i u. rs i)\<rparr>"

definition new_year :: datetime where
  "new_year =
     \<lparr>ordinal = 737425, hour = 0, minute = 0, second = 0, microsecond = 0, tzinfo = None\<rparr>"

definition busy_pages :: "nat \<Rightarrow> nat response" where
  "busy_pages i = Page 1 []"

definition long_pages :: "nat \<Rightarrow> nat response" where
  "long_pages i = (if i < 1000 then Page 1 [] else Page 0 [])"

definition small_pages :: "nat \<Rightarrow> nat response" where
  "small_pages i =
     (if i = 0 then Page 2 [\<lparr>fid = ''a'', body = 1\<rparr>, \<lparr>fid = ''b'', body = 2\<rparr>]
      else if i = 1 then Page 1 [\<lparr>fid = ''a'', body = 3\<rparr>]
      else Page 0 [\<lparr>fid = ''c'', body = 4\<rparr>])"

definition bare_url :: string where
  "bare_url = ''http://finder.creodias.eu/resto/api/collections//search.json?&maxRecords=1000''"

definition full_kwargs :: "(string \<times> pyval) list" where
  "full_kwargs = [(''b'', PStr ''x''), (''a'', PStr ''y'')]"

definition full_url :: string where
  "full_url = ''http://finder.creodias.eu/resto/api/collections/Sentinel1/search.json?'' @
     ''&startDate=2020-01-01T00:00:00&completionDate=2020-01-01T23:59:59'' @
     ''&geometry=POINT(1+2)&a=y&b=x&maxRecords=1000''"

section \<open>Properties of the parameter encoder\<close>

lemmas pattern_eval =
  re_match_def digit_def fstring_field_def lits_def str_nat.simps Opt_def Plus_def newline_def

lemmas encoder_eval =
  set_collection_def add_start_date_def add_end_date_def add_geometry_def build_url_def
  API_URL_def MAX_RECORDS_def str_nat.simps sample_env_def strip_def py_isspace_def
  bracketed_def startswith_def endswith_def re_sub_def re_M_def backslash_def

text \<open>
  C1. \<^verbatim>\<open>_parse_date\<close> is to accept every string of the form \<^verbatim>\<open>YYYY-MM-DD\<close>. On
  the string \<^verbatim>\<open>2020-01-01\<close>, which the pattern of the specification matches, the
  function raises the \<open>ValueError\<close>, whose message holds the text \<^verbatim>\<open>{date}\<close> and
  not the value: the pattern of the source asks for a digit followed by the character
  \<^verbatim>\<open>4\<close> where a year is meant.
\<close>

theorem parse_date_rejects_iso_date:
  "parse_date E (PStr ''2020-01-01'') =
     Inl (ValueError ''Date {date} is not in a valid format. Use Datetime object or iso string'')
   \<and> re_match iso_pattern ''2020-01-01''
   \<and> re_match date_pattern ''94-12-32''"
proof (intro conjI)
  have "\<not> re_match date_pattern ''2020-01-01''"
    by (simp add: pattern_eval date_pattern_def)
  then show "parse_date E (PStr ''2020-01-01'') =
     Inl (ValueError ''Date {date} is not in a valid format. Use Datetime object or iso string'')"
    by simp
  show "re_match iso_pattern ''2020-01-01''"
    by (simp add: pattern_eval iso_pattern_def eval_nat_numeral)
  show "re_match date_pattern ''94-12-32''"
    by (simp add: pattern_eval date_pattern_def)
qed

text \<open>
  C4. \<^verbatim>\<open>_convert_wkt\<close> on \<^verbatim>\<open>POLYGON ((1 2, 3 4))\<close>: the space after the comma is
  dropped, the first remaining space (the one after the keyword) is removed, and the
  other spaces become \<^verbatim>\<open>+\<close>. The result has no \<^verbatim>\<open>+\<close> after the keyword.
\<close>

theorem convert_wkt_polygon:
  "convert_wkt (PStr ''POLYGON ((1 2, 3 4))'') = Inr ''POLYGON((1+2,3+4))''"
  by simp

theorem convert_wkt_polygon_counterexample:
  "convert_wkt (PStr ''POLYGON ((1 2, 3 4))'') \<noteq> Inr ''POLYGON+((1+2,3+4))''"
  by simp

lemma end_of_day_delta:
  "timedelta_new 0 23 59 59 0 = \<lparr>days = 0, seconds = 86399, microseconds = 0\<rparr>"
  by (simp add: timedelta_new_def)

lemma split_micro:
  fixes a us :: int
  assumes "0 \<le> us" "us < 1000000"
  shows "(a * 1000000 + us) div 1000000 = a" "(a * 1000000 + us) mod 1000000 = us"
  using assms by simp_all

lemma split_secs:
  fixes a s :: int
  assumes "0 \<le> s" "s < 86400"
  shows "(a * 86400 + s) div 86400 = a" "(a * 86400 + s) mod 86400 = s"
  using assms by simp_all

lemma midnight_plus:
  assumes "1 \<le> ordinal d" "ordinal d \<le> MAXORDINAL"
    "0 \<le> microsecond d" "microsecond d < 1000000"
    "hour d = 0" "minute d = 0" "second d = 0"
  shows "datetime_add d \<lparr>days = 0, seconds = 86399, microseconds = 0\<rparr> =
         Inr (d\<lparr>hour := 23, minute := 59, second := 59\<rparr>)"
proof -
  have a: "timedelta_new (ordinal d) 0 0 86399 (microsecond d) =
        \<lparr>days = ordinal d, seconds = 86399, microseconds = microsecond d\<rparr>"
    using split_micro[OF assms(3,4), of "ordinal d * 86400 + 86399"]
          split_secs[of 86399 "ordinal d"]
    by (simp add: timedelta_new_def Let_def)
  show ?thesis
    using assms a by (simp add: datetime_add_def Let_def)
qed

text \<open>
  C8. \<^verbatim>\<open>_add_time\<close>: a timestamp whose hour, minute and second are all zero comes
  back on the same day with the time 23:59:59 (microsecond and time zone as they were);
  every other timestamp comes back unchanged. No exception is raised.
\<close>

theorem add_time_end_of_day:
  "valid_datetime d \<Longrightarrow>
   add_time d = Inr (if hour d = 0 \<and> minute d = 0 \<and> second d = 0
                     then d\<lparr>hour := 23, minute := 59, second := 59\<rparr> else d)"
  using midnight_plus[of d]
  by (simp add: add_time_def end_of_day_delta valid_datetime_def)

theorem add_time_end_of_day_witness:
  "valid_datetime new_year \<and>
   add_time new_year =
     Inr \<lparr>ordinal = 737425, hour = 23, minute = 59, second = 59, microsecond = 0,
          tzinfo = None\<rparr>"
proof -
  have v: "valid_datetime new_year"
    by (simp add: valid_datetime_def new_year_def MAXORDINAL_def)
  from add_time_end_of_day[OF v] v show ?thesis
    by (simp add: new_year_def)
qed

text \<open>
  C5. \<^verbatim>\<open>_parse_argvalue\<close> is to escape every white-space character of a trimmed
  string value that is not bracketed. On \<^verbatim>\<open>a b c d e f g h i j\<close>, which holds nine
  spaces, the first eight spaces come back with a backslash before them and the ninth,
  between \<^verbatim>\<open>i\<close> and \<^verbatim>\<open>j\<close>, comes back bare: the flag \<^verbatim>\<open>re.M\<close>, the
  integer 8, stands where \<^verbatim>\<open>re.sub\<close> takes the number of replacements. With
  eight spaces, as in \<^verbatim>\<open>a b c d e f g h i\<close>, every one is escaped.
\<close>

theorem parse_argvalue_nine_spaces:
  "\<not> bracketed (strip ''a b c d e f g h i j'') \<and>
   parse_argvalue E (PStr ''a b c d e f g h i j'') =
     Inr (''a'' @ [backslash] @ '' b'' @ [backslash] @ '' c'' @ [backslash] @ '' d'' @
          [backslash] @ '' e'' @ [backslash] @ '' f'' @ [backslash] @ '' g'' @
          [backslash] @ '' h'' @ [backslash] @ '' i j'') \<and>
   parse_argvalue E (PStr ''a b c d e f g h i j'') \<noteq>
     Inr (backslash_prefixed (strip ''a b c d e f g h i j'')) \<and>
   parse_argvalue E (PStr ''a b c d e f g h i'') =
     Inr (backslash_prefixed (strip ''a b c d e f g h i''))"
  by (simp add: encoder_eval backslash_prefixed_def)

section \<open>Properties of the page loop\<close>

lemma merge_features_append:
  "merge_features acc (fs @ gs) = merge_features (merge_features acc fs) gs"
  by (simp add: merge_features_def)

lemma merged_step:
  "p < k \<Longrightarrow> merged E url p k = features_of (responses E url p) @ merged E url (Suc p) k"
  by (simp add: merged_def upt_conv_Cons)

lemma first_empty_iff:
  "first_empty E url k \<longleftrightarrow>
     (\<forall>i<k. reports_items (responses E url i)) \<and> reports_empty (responses E url k)"
  by (auto simp: first_empty_def list_all_iff)

lemma responses_sample [simp]: "responses (sample_env rs) url i = rs i"
  by (simp add: responses_def sample_env_def)

lemma bare_build: "build_url (sample_env rs) PNone PNone PNone PNone [] = Inr bare_url"
  by (simp add: encoder_eval bare_url_def)

text \<open>
  The loop started at page \<open>p\<close> with \<open>p\<close> requests made: when the first page with a
  zero count is page \<open>k \<le> 999\<close>, the loop returns after the request for page \<open>k\<close>
  with the features of the pages before \<open>k\<close> merged.
\<close>

lemma page_loop_stops:
  "length log = p \<Longrightarrow> p \<le> k \<Longrightarrow> k < p + n \<Longrightarrow> k \<le> 999 \<Longrightarrow>
   \<forall>i. p \<le> i \<and> i < k \<longrightarrow> reports_items (responses E url i) \<Longrightarrow>
   reports_empty (responses E url k) \<Longrightarrow>
   page_loop E url n p acc log =
     (Inr (merge_features acc (merged E url p k)), log @ map (page_url url) [p..<Suc k])"
proof (induction n arbitrary: p acc log)
  case 0
  then show ?case by simp
next
  case (Suc n)
  show ?case
  proof (cases "p = k")
    case True
    with Suc.prems obtain fs where "get E (length log) (page_url url p) = Page 0 fs"
      by (cases "responses E url k") (auto simp: responses_def)
    with True show ?thesis
      by (simp add: merged_def merge_features_def)
  next
    case False
    with Suc.prems have pk: "p < k" by simp
    with Suc.prems have "reports_items (responses E url p)" by simp
    then obtain m fs where r: "get E (length log) (page_url url p) = Page m fs" and m: "m \<noteq> 0"
      using Suc.prems(1) by (cases "responses E url p") (auto simp: responses_def)
    have p999: "p \<noteq> 999" using pk Suc.prems by simp
    have IH: "page_loop E url n (Suc p) (merge_features acc fs) (log @ [page_url url p]) =
        (Inr (merge_features (merge_features acc fs) (merged E url (Suc p) k)),
         (log @ [page_url url p]) @ map (page_url url) [Suc p..<Suc k])"
      using Suc.prems pk by (intro Suc.IH) auto
    have fo: "features_of (responses E url p) = fs"
      using r Suc.prems(1) by (simp add: responses_def)
    show ?thesis
      using r m p999 IH pk fo
      by (simp add: merged_step merge_features_append upt_conv_Cons)
  qed
qed

text \<open>
  When every page up to index 999 reports a nonzero count, the loop makes the requests
  up to page 999 and then evaluates \<^verbatim>\<open>RequestError('The query is too large.')\<close>,
  a call with one argument.
\<close>

lemma page_loop_too_large:
  "length log = p \<Longrightarrow> p \<le> 999 \<Longrightarrow> 999 < p + n \<Longrightarrow>
   \<forall>i. p \<le> i \<and> i \<le> 999 \<longrightarrow> reports_items (responses E url i) \<Longrightarrow>
   page_loop E url n p acc log = (Inl TypeError, log @ map (page_url url) [p..<1000])"
proof (induction n arbitrary: p acc log)
  case 0
  then show ?case by simp
next
  case (Suc n)
  from Suc.prems have "reports_items (responses E url p)" by simp
  then obtain m fs where r: "get E (length log) (page_url url p) = Page m fs" and m: "m \<noteq> 0"
    using Suc.prems(1) by (cases "responses E url p") (auto simp: responses_def)
  show ?case
  proof (cases "p = 999")
    case True
    with r m show ?thesis by simp
  next
    case False
    have IH: "page_loop E url n (Suc p) (merge_features acc fs) (log @ [page_url url p]) =
        (Inl TypeError, (log @ [page_url url p]) @ map (page_url url) [Suc p..<1000])"
      using Suc.prems False by (intro Suc.IH) auto
    have "[p..<1000] = p # [Suc p..<1000]" using Suc.prems by (simp add: upt_conv_Cons)
    with r m False IH show ?thesis by simp
  qed
qed

lemma query_stops:
  assumes "build_url E c s e g kw = Inr url" "first_empty E url k" "k < 1000"
  shows "query E c s e g kw =
     (Inr (merge_features Map.empty (merged E url 0 k)), map (page_url url) [0..<Suc k])"
proof -
  have "page_loop E url 1000 0 Map.empty [] =
     (Inr (merge_features Map.empty (merged E url 0 k)), [] @ map (page_url url) [0..<Suc k])"
    using assms by (intro page_loop_stops) (auto simp: first_empty_iff)
  with assms(1) show ?thesis by (simp add: query_def)
qed

lemma query_ceiling:
  assumes "build_url E c s e g kw = Inr url" "\<forall>i<1000. reports_items (responses E url i)"
  shows "query E c s e g kw = (Inl TypeError, map (page_url url) [0..<1000])"
proof -
  have "page_loop E url 1000 0 Map.empty [] = (Inl TypeError, [] @ map (page_url url) [0..<1000])"
    using assms by (intro page_loop_too_large) auto
  with assms(1) show ?thesis by (simp add: query_def)
qed

lemma small_first_empty: "first_empty (sample_env small_pages) url 2"
  by (simp add: first_empty_def small_pages_def numeral_2_eq_2)

lemma small_merged: "merged (sample_env small_pages) url 0 2 =
   [\<lparr>fid = ''a'', body = 1\<rparr>, \<lparr>fid = ''b'', body = 2\<rparr>, \<lparr>fid = ''a'', body = 3\<rparr>]"
  by (simp add: merged_def small_pages_def numeral_2_eq_2)

text \<open>
  C2. A query with no parameters against a server whose every page reports one item:
  the loop requests \<^verbatim>\<open>page=1\<close> to \<^verbatim>\<open>page=1000\<close>, 1000 requests, and no mapping
  is returned; the exception that leaves \<^verbatim>\<open>query\<close> is the \<open>TypeError\<close> of the
  constructor call, not a \<open>RequestError\<close>.
\<close>

theorem query_too_large_raises_TypeError:
  "query (sample_env busy_pages) PNone PNone PNone PNone [] =
     (Inl TypeError, map (page_url bare_url) [0..<1000]) \<and>
   page_url bare_url 0 = bare_url @ ''&page=1'' \<and>
   page_url bare_url 999 = bare_url @ ''&page=1000'' \<and>
   RequestError_init [PStr ''The query is too large.''] = TypeError"
  using query_ceiling[OF bare_build, of busy_pages]
  by (simp add: busy_pages_def page_url_def str_nat.simps)

text \<open>
  C3, as the code has it. When the URL is built and the first page that reports a zero
  count is page \<open>k\<close> with \<open>k < 1000\<close>, \<^verbatim>\<open>query\<close> makes the requests for the pages
  \<open>0, \<dots>, k\<close> and returns the mapping merged from the pages before \<open>k\<close>; no feature
  of page \<open>k\<close> is merged.
\<close>

theorem pagination_stops_at_first_empty_page:
  "build_url E c s e g kw = Inr url \<Longrightarrow> first_empty E url k \<Longrightarrow> k < 1000 \<Longrightarrow>
   query E c s e g kw =
     (Inr (merge_features Map.empty (merged E url 0 k)), map (page_url url) [0..<Suc k])"
  by (rule query_stops)

theorem pagination_stops_at_first_empty_page_witness:
  "build_url (sample_env small_pages) PNone PNone PNone PNone [] = Inr bare_url \<and>
   first_empty (sample_env small_pages) bare_url 2 \<and> (2::nat) < 1000 \<and>
   query (sample_env small_pages) PNone PNone PNone PNone [] =
     (Inr (merge_features Map.empty
        [\<lparr>fid = ''a'', body = 1\<rparr>, \<lparr>fid = ''b'', body = 2\<rparr>, \<lparr>fid = ''a'', body = 3\<rparr>]),
      [bare_url @ ''&page=1'', bare_url @ ''&page=2'', bare_url @ ''&page=3''])"
  using pagination_stops_at_first_empty_page[OF bare_build small_first_empty]
  by (simp add: bare_build small_first_empty small_merged page_url_def str_nat.simps upt_rec)

text \<open>
  Without the bound the claim fails: when the first page with a zero count is page
  1000, the loop has raised at page 999 and no mapping is returned.
\<close>

theorem pagination_stops_at_first_empty_page_counterexample:
  "build_url (sample_env long_pages) PNone PNone PNone PNone [] = Inr bare_url \<and>
   first_empty (sample_env long_pages) bare_url 1000 \<and>
   fst (query (sample_env long_pages) PNone PNone PNone PNone []) \<noteq>
     Inr (merge_features Map.empty (merged (sample_env long_pages) bare_url 0 1000))"
  using query_ceiling[OF bare_build, of long_pages]
  by (simp add: bare_build first_empty_iff long_pages_def)






section \<open>Properties of the URL\<close>

lemma add_start_date_appends:
  "add_start_date E s url = raising (add_start_date E s []) (\<lambda>f. Inr (url @ f))"
  by (simp add: add_start_date_def split: sum.splits)

lemma add_end_date_appends:
  "add_end_date E e url = raising (add_end_date E e []) (\<lambda>f. Inr (url @ f))"
  by (simp add: add_end_date_def split: sum.splits)

lemma add_geometry_appends:
  "add_geometry g url = raising (add_geometry g []) (\<lambda>f. Inr (url @ f))"
  by (simp add: add_geometry_def split: sum.splits)

lemma add_filters_Inr:
  "add_filters E kvs url = Inr u \<Longrightarrow>
   \<exists>frs. map fst frs = map fst kvs \<and>
         map (\<lambda>kv. Inr (snd kv)) frs = map (\<lambda>kv. parse_argvalue E (snd kv)) kvs \<and>
         u = url @ concat (map fragment frs)"
proof (induction kvs arbitrary: url)
  case Nil
  then show ?case by simp
next
  case (Cons kv kvs)
  obtain a v where kv: "kv = (a, v)" by (cases kv)
  from Cons.prems kv obtain w where w: "parse_argvalue E v = Inr w"
    and rest: "add_filters E kvs (url @ ''&'' @ a @ ''='' @ w) = Inr u"
    by (auto split: sum.splits)
  from Cons.IH[OF rest] obtain frs where frs:
    "map fst frs = map fst kvs"
    "map (\<lambda>kv. Inr (snd kv)) frs = map (\<lambda>kv. parse_argvalue E (snd kv)) kvs"
    "u = (url @ ''&'' @ a @ ''='' @ w) @ concat (map fragment frs)"
    by blast
  show ?case
    using frs kv w by (intro exI[of _ "(a, w) # frs"]) simp
qed

lemma add_filters_appends:
  "add_filters E kvs url = raising (add_filters E kvs []) (\<lambda>f. Inr (url @ f))"
proof (induction kvs arbitrary: url)
  case Nil
  then show ?case by simp
next
  case (Cons kv kvs)
  obtain a v where kv: "kv = (a, v)" by (cases kv)
  show ?case
  proof (cases "parse_argvalue E v")
    case (Inl e)
    with kv show ?thesis by simp
  next
    case (Inr w)
    have "add_filters E kvs (url @ ''&'' @ a @ ''='' @ w) =
          raising (add_filters E kvs []) (\<lambda>f. Inr ((url @ ''&'' @ a @ ''='' @ w) @ f))"
      by (rule Cons.IH)
    moreover have "add_filters E kvs (''&'' @ a @ ''='' @ w) =
          raising (add_filters E kvs []) (\<lambda>f. Inr ((''&'' @ a @ ''='' @ w) @ f))"
      by (rule Cons.IH)
    ultimately show ?thesis using kv Inr
      by (cases "add_filters E kvs []") simp_all
  qed
qed

lemma str_nat_1000: "str_nat MAX_RECORDS = ''1000''"
  by (simp add: MAX_RECORDS_def str_nat.simps)

lemma build_url_parts:
  "build_url E c s e g kw = Inr url \<Longrightarrow>
   \<exists>base f1 f2 f3 f4.
     set_collection E c = Inr base \<and> add_start_date E s [] = Inr f1 \<and>
     add_end_date E e [] = Inr f2 \<and> add_geometry g [] = Inr f3 \<and>
     add_filters E (sort_key fst kw) [] = Inr f4 \<and>
     url = base @ f1 @ f2 @ f3 @ f4 @ ''&maxRecords=1000''"
  unfolding build_url_def str_nat_1000
  apply (subst (asm) add_start_date_appends)
  apply (subst (asm) add_end_date_appends)
  apply (subst (asm) add_geometry_appends)
  apply (subst (asm) add_filters_appends)
  apply (cases "set_collection E c"; cases "add_start_date E s []"; cases "add_end_date E e []";
         cases "add_geometry g []"; cases "add_filters E (sort_key fst kw) []")
  apply simp_all
  done

lemma map_insort_key: "map f (insort_key f x xs) = insort (f x) (map f xs)"
  by (induction xs) simp_all

lemma map_sort_key: "map f (sort_key f xs) = sort (map f xs)"
  by (induction xs) (simp_all add: map_insort_key)

lemma new_year_end:
  "add_time \<lparr>ordinal = 737425, hour = 0, minute = 0, second = 0, microsecond = 0,
      tzinfo = None\<rparr> =
   Inr \<lparr>ordinal = 737425, hour = 23, minute = 59, second = 59, microsecond = 0,
      tzinfo = None\<rparr>"
  using midnight_plus[of new_year]
  by (simp add: add_time_def end_of_day_delta new_year_def MAXORDINAL_def)

lemma full_build:
  "build_url (sample_env busy_pages) (PStr ''Sentinel1'') (PDatetime new_year)
     (PDatetime new_year) (PStr ''POINT (1 2)'') full_kwargs = Inr full_url"
  by (simp add: encoder_eval new_year_end full_kwargs_def full_url_def sample_isoformat_def
      two_digits_def new_year_def)

lemma ba_build:
  "build_url (sample_env busy_pages) PNone PNone PNone PNone full_kwargs =
     Inr ''http://finder.creodias.eu/resto/api/collections//search.json?&a=y&b=x&maxRecords=1000''"
  by (simp add: encoder_eval full_kwargs_def)

text \<open>
  C6, as the code has it. When the URL is built, it is the base path followed by the
  fragment of the start date, the fragment of the end date, the fragment of the
  geometry, the fragments of the extra filters in the order of their sorted keys, and
  the trailing \<^verbatim>\<open>&maxRecords=1000\<close>; each fragment is what its step appends to
  the empty string (nothing for an absent parameter).
\<close>

theorem url_fragment_order:
  "build_url E c s e g kw = Inr url \<Longrightarrow>
   \<exists>base f1 f2 f3 f4.
     set_collection E c = Inr base \<and> add_start_date E s [] = Inr f1 \<and>
     add_end_date E e [] = Inr f2 \<and> add_geometry g [] = Inr f3 \<and>
     add_filters E (sort_key fst kw) [] = Inr f4 \<and>
     url = base @ f1 @ f2 @ f3 @ f4 @ ''&maxRecords=1000''"
  by (rule build_url_parts)

theorem url_fragment_order_witness:
  "build_url (sample_env busy_pages) (PStr ''Sentinel1'') (PDatetime new_year)
     (PDatetime new_year) (PStr ''POINT (1 2)'') full_kwargs = Inr full_url \<and>
   (\<exists>base f1 f2 f3 f4.
     set_collection (sample_env busy_pages) (PStr ''Sentinel1'') = Inr base \<and>
     add_start_date (sample_env busy_pages) (PDatetime new_year) [] = Inr f1 \<and>
     add_end_date (sample_env busy_pages) (PDatetime new_year) [] = Inr f2 \<and>
     add_geometry (PStr ''POINT (1 2)'') [] = Inr f3 \<and>
     add_filters (sample_env busy_pages) (sort_key fst full_kwargs) [] = Inr f4 \<and>
     full_url = base @ f1 @ f2 @ f3 @ f4 @ ''&maxRecords=1000'')"
  using url_fragment_order[OF full_build] full_build by blast

text \<open>
  In the order the data model states (filters before the geometry) the URL is another
  string: the code puts the geometry before the filters.
\<close>

theorem url_fragment_order_counterexample:
  "build_url (sample_env busy_pages) (PStr ''Sentinel1'') (PDatetime new_year)
     (PDatetime new_year) (PStr ''POINT (1 2)'') full_kwargs = Inr full_url \<and>
   spec_order_url (sample_env busy_pages) (PStr ''Sentinel1'') (PDatetime new_year)
     (PDatetime new_year) (PStr ''POINT (1 2)'') full_kwargs =
     Inr (''http://finder.creodias.eu/resto/api/collections/Sentinel1/search.json?'' @
     ''&startDate=2020-01-01T00:00:00&completionDate=2020-01-01T23:59:59'' @
     ''&a=y&b=x&geometry=POINT(1+2)&maxRecords=1000'') \<and>
   build_url (sample_env busy_pages) (PStr ''Sentinel1'') (PDatetime new_year)
     (PDatetime new_year) (PStr ''POINT (1 2)'') full_kwargs \<noteq>
   spec_order_url (sample_env busy_pages) (PStr ''Sentinel1'') (PDatetime new_year)
     (PDatetime new_year) (PStr ''POINT (1 2)'') full_kwargs"
proof -
  have "spec_order_url (sample_env busy_pages) (PStr ''Sentinel1'') (PDatetime new_year)
     (PDatetime new_year) (PStr ''POINT (1 2)'') full_kwargs =
     Inr (''http://finder.creodias.eu/resto/api/collections/Sentinel1/search.json?'' @
     ''&startDate=2020-01-01T00:00:00&completionDate=2020-01-01T23:59:59'' @
     ''&a=y&b=x&geometry=POINT(1+2)&maxRecords=1000'')"
    by (simp add: spec_order_url_def encoder_eval new_year_end full_kwargs_def
      sample_isoformat_def two_digits_def new_year_def)
  then show ?thesis by (simp add: full_build full_url_def)
qed

text \<open>
  C7. When the URL is built, it ends with one \<^verbatim>\<open>&key=value\<close> fragment for each
  extra filter, in ascending order of the keys, each value being the encoding of the
  filter's value, followed by the page size; for the filters \<^verbatim>\<open>{b: "x", a: "y"}\<close>
  the URL holds \<^verbatim>\<open>&a=y&b=x\<close>.
\<close>

theorem filters_sorted_by_key:
  "build_url E c s e g kw = Inr url \<Longrightarrow>
   \<exists>pre frs. url = pre @ concat (map fragment frs) @ ''&maxRecords=1000'' \<and>
       map fst frs = sort (map fst kw) \<and>
       map (\<lambda>kv. Inr (snd kv)) frs = map (\<lambda>kv. parse_argvalue E (snd kv)) (sort_key fst kw)"
proof -
  assume "build_url E c s e g kw = Inr url"
  from build_url_parts[OF this] obtain base f1 f2 f3 f4 where
    f4: "add_filters E (sort_key fst kw) [] = Inr f4"
    and url: "url = base @ f1 @ f2 @ f3 @ f4 @ ''&maxRecords=1000''"
    by blast
  from add_filters_Inr[OF f4] obtain frs where
    "map fst frs = map fst (sort_key fst kw)"
    "map (\<lambda>kv. Inr (snd kv)) frs = map (\<lambda>kv. parse_argvalue E (snd kv)) (sort_key fst kw)"
    "f4 = [] @ concat (map fragment frs)"
    by blast
  with url show ?thesis
    by (intro exI[of _ "base @ f1 @ f2 @ f3"] exI[of _ frs]) (simp add: map_sort_key)
qed

theorem filters_sorted_by_key_witness:
  "build_url (sample_env busy_pages) PNone PNone PNone PNone
      [(''b'', PStr ''x''), (''a'', PStr ''y'')] =
     Inr ''http://finder.creodias.eu/resto/api/collections//search.json?&a=y&b=x&maxRecords=1000'' \<and>
   (\<exists>pre frs. ''http://finder.creodias.eu/resto/api/collections//search.json?&a=y&b=x&maxRecords=1000'' =
         pre @ concat (map fragment frs) @ ''&maxRecords=1000'' \<and>
       map fst frs = sort (map fst [(''b'', PStr ''x''), (''a'', PStr ''y'')]) \<and>
       map (\<lambda>kv. Inr (snd kv)) frs =
         map (\<lambda>kv. parse_argvalue (sample_env busy_pages) (snd kv))
           (sort_key fst [(''b'', PStr ''x''), (''a'', PStr ''y'')]))"
  using filters_sorted_by_key[OF ba_build] ba_build unfolding full_kwargs_def by blast

text \<open>
  C10. A falsy collection, start date, end date or geometry is treated as an absent
  one: the URL is the one built with \<^verbatim>\<open>None\<close> in its place, whatever the
  capabilities of the environment answer, and the query is the same; with all four
  given as the empty string and no filter the URL is built without any of their
  fragments and no exception is raised.
\<close>

theorem falsy_arguments_absent:
  "(\<not> truthy c \<longrightarrow> build_url E c s e g kw = build_url E PNone s e g kw) \<and>
   (\<not> truthy s \<longrightarrow> build_url E c s e g kw = build_url E c PNone e g kw) \<and>
   (\<not> truthy e \<longrightarrow> build_url E c s e g kw = build_url E c s PNone g kw) \<and>
   (\<not> truthy g \<longrightarrow> build_url E c s e g kw = build_url E c s e PNone kw) \<and>
   (\<not> truthy c \<and> \<not> truthy s \<and> \<not> truthy e \<and> \<not> truthy g \<longrightarrow>
      query E c s e g kw = query E PNone PNone PNone PNone kw) \<and>
   build_url E (PStr []) (PStr []) (PStr []) (PStr []) [] = Inr bare_url"
  by (simp add: query_def build_url_def set_collection_def add_start_date_def add_end_date_def
      add_geometry_def bare_url_def API_URL_def MAX_RECORDS_def str_nat.simps)

theorem falsy_arguments_absent_witness:
  "\<not> truthy (PStr []) \<and>
   build_url (sample_env busy_pages) (PStr []) (PStr []) (PStr []) (PStr []) full_kwargs =
     Inr ''http://finder.creodias.eu/resto/api/collections//search.json?&a=y&b=x&maxRecords=1000'' \<and>
   query (sample_env busy_pages) (PStr []) (PStr []) (PStr []) (PStr []) full_kwargs =
     query (sample_env busy_pages) PNone PNone PNone PNone full_kwargs"
proof -
  have f: "\<not> truthy (PStr [])" by simp
  show ?thesis
    using falsy_arguments_absent[of "PStr []" "sample_env busy_pages" "PStr []" "PStr []" "PStr []" full_kwargs]
      falsy_arguments_absent[of "PNone" "sample_env busy_pages" "PStr []" "PStr []" "PStr []" full_kwargs]
      falsy_arguments_absent[of "PNone" "sample_env busy_pages" "PNone" "PStr []" "PStr []" full_kwargs]
      falsy_arguments_absent[of "PNone" "sample_env busy_pages" "PNone" "PNone" "PStr []" full_kwargs]
      ba_build
    by simp
qed

end
